theory Spec2Isabelle
  imports Main
begin

section \<open>Strategies base interfaces of dist_checkpointing\<close>

text \<open>
  A shallow embedding of \<^verbatim>\<open>megatron/core/dist_checkpointing/strategies/base.py\<close>.
  Module-level mutable objects become fields of an explicit state that every function
  takes and returns; a raised exception is the left summand of the result.  A strategy
  instance is a value of the type variable \<open>'s\<close>, which stands for the object reference
  that Python stores in the dictionary: two references are equal exactly when they
  denote the same instance.
\<close>

subsection \<open>Exceptions\<close>

text \<open>
  The exception classes that occur in the module.  \<open>ImportError\<close> carries \<open>str(e)\<close>;
  it stands for the class and its subclasses, which \<^verbatim>\<open>except ImportError\<close> catches
  alike.  \<open>KeyError\<close> carries the inner dictionary key.  \<open>OtherError cls msg\<close> is an
  exception of any class that is not one of the others.  The second argument of
  \<open>CheckpointingException\<close> is the \<^verbatim>\<open>__cause__\<close> set by \<^verbatim>\<open>raise ... from e\<close>.
\<close>

datatype py_exception =
    ImportError string
  | KeyError "string \<times> int"
  | NotImplementedError string
  | OtherError string string
  | CheckpointingException string py_exception

subsection \<open>StrategyAction\<close>

datatype StrategyAction = LOAD_COMMON | LOAD_SHARDED | SAVE_COMMON | SAVE_SHARDED

text \<open>The \<^verbatim>\<open>.value\<close> of an enum member.\<close>

fun action_value :: "StrategyAction \<Rightarrow> string" where
  "action_value LOAD_COMMON = ''load_common''"
| "action_value LOAD_SHARDED = ''load_sharded''"
| "action_value SAVE_COMMON = ''save_common''"
| "action_value SAVE_SHARDED = ''save_sharded''"

subsection \<open>The registry of default strategies\<close>

text \<open>
  \<^verbatim>\<open>default_strategies: DefaultDict[str, dict[tuple, Any]] = defaultdict(dict)\<close>:
  an outer dictionary keyed by \<^verbatim>\<open>action.value\<close> whose values are dictionaries keyed by
  \<^verbatim>\<open>(backend, version)\<close>.  The field \<open>world\<close> is the rest of the interpreter state
  that importing a backend module may read or change.
\<close>

record ('s, 'w) py_state =
  default_strategies :: "string \<rightharpoonup> (string \<times> int \<rightharpoonup> 's)"
  world :: 'w

text \<open>
  Subscription of the \<^verbatim>\<open>defaultdict\<close>: a missing key is first bound to a fresh empty
  dictionary, which is then returned.
\<close>

definition defaultdict_getitem ::
  "string \<Rightarrow> ('s, 'w) py_state \<Rightarrow> (string \<times> int \<rightharpoonup> 's) \<times> ('s, 'w) py_state" where
  "defaultdict_getitem k st =
     (case default_strategies st k of
        None \<Rightarrow> (Map.empty, st\<lparr>default_strategies := (default_strategies st)(k \<mapsto> Map.empty)\<rparr>)
      | Some d \<Rightarrow> (d, st))"

text \<open>
  \<^verbatim>\<open>default_strategies[action.value][(backend, version)] = strategy\<close>
\<close>

definition register_default_strategy ::
  "StrategyAction \<Rightarrow> string \<Rightarrow> int \<Rightarrow> 's \<Rightarrow> ('s, 'w) py_state \<Rightarrow> ('s, 'w) py_state" where
  "register_default_strategy action backend version strategy st =
     (case defaultdict_getitem (action_value action) st of
        (d, st1) \<Rightarrow>
          st1\<lparr>default_strategies :=
                (default_strategies st1)(action_value action \<mapsto> d((backend, version) \<mapsto> strategy))\<rparr>)"

text \<open>
  The formatting builtins the f-strings use: \<^verbatim>\<open>repr\<close> of a \<^verbatim>\<open>str\<close> and of an
  \<^verbatim>\<open>int\<close>.  They belong to the language, not to the module, and are parameters.
\<close>

record py_builtins =
  repr_str :: "string \<Rightarrow> string"
  repr_int :: "int \<Rightarrow> string"

text \<open>
  \<^verbatim>\<open>f'{(action.value, backend, version)}'\<close>: the \<^verbatim>\<open>repr\<close> of a 3-tuple.
\<close>

definition identity_repr :: "py_builtins \<Rightarrow> string \<times> string \<times> int \<Rightarrow> string" where
  "identity_repr R t =
     (case t of (a, b, v) \<Rightarrow>
        ''('' @ repr_str R a @ '', '' @ repr_str R b @ '', '' @ repr_int R v @ '')'')"

text \<open>
  The backend modules \<^verbatim>\<open>.tensorstore\<close>, \<^verbatim>\<open>.zarr\<close> and \<^verbatim>\<open>.torch\<close> are not part of this
  file.  Each field stands for one \<^verbatim>\<open>from .m import f\<close> followed by the call \<^verbatim>\<open>f()\<close>:
  a transformer of the state that either returns normally (\<open>None\<close>) or raises.
\<close>

type_synonym ('s, 'w) routine =
  "('s, 'w) py_state \<Rightarrow> py_exception option \<times> ('s, 'w) py_state"

record ('s, 'w) backends =
  register_default_tensorstore_strategies :: "('s, 'w) routine"
  register_default_zarr_strategies :: "('s, 'w) routine"
  register_default_torch_strategies :: "('s, 'w) routine"

definition zarr_hint :: string where
  "zarr_hint = '' Please install `zarr` and `tensorstore!=0.1.46` packages''"

definition torch_hint :: string where
  "torch_hint = '' Please use PyTorch version >=2.1''"

text \<open>
  The body of the first \<^verbatim>\<open>try\<close> block of \<^verbatim>\<open>get_default_strategy\<close> (lines 31 to 45):
  the value of \<^verbatim>\<open>error_hint\<close> when the block is left, the exception that left it if
  any, and the state.
\<close>

definition try_activate ::
  "('s, 'w) backends \<Rightarrow> string \<Rightarrow> ('s, 'w) py_state
     \<Rightarrow> string \<times> py_exception option \<times> ('s, 'w) py_state" where
  "try_activate B backend st =
     (if backend = ''zarr'' then
        (case register_default_tensorstore_strategies B st of
           (Some e, st1) \<Rightarrow> (zarr_hint, Some e, st1)
         | (None, st1) \<Rightarrow> (zarr_hint, register_default_zarr_strategies B st1))
      else if backend = ''torch_dist'' then
        (torch_hint, register_default_torch_strategies B st)
      else ([], None, st))"

text \<open>
  The second \<^verbatim>\<open>try\<close> block (lines 51 to 56): the subscription of the registry, with
  the \<^verbatim>\<open>KeyError\<close> of the inner dictionary turned into a \<^verbatim>\<open>CheckpointingException\<close>.
\<close>

definition not_found_message :: "py_builtins \<Rightarrow> StrategyAction \<Rightarrow> string \<Rightarrow> int \<Rightarrow> string" where
  "not_found_message R action backend version =
     ''Cannot find a default strategy for: '' @ identity_repr R (action_value action, backend, version)"

definition lookup_default_strategy ::
  "py_builtins \<Rightarrow> StrategyAction \<Rightarrow> string \<Rightarrow> int \<Rightarrow> ('s, 'w) py_state
     \<Rightarrow> (py_exception + 's) \<times> ('s, 'w) py_state" where
  "lookup_default_strategy R action backend version st =
     (case defaultdict_getitem (action_value action) st of
        (d, st1) \<Rightarrow>
          (case d (backend, version) of
             Some s \<Rightarrow> (Inr s, st1)
           | None \<Rightarrow>
               (Inl (CheckpointingException (not_found_message R action backend version)
                       (KeyError (backend, version))), st1)))"

definition import_failed_message ::
  "py_builtins \<Rightarrow> StrategyAction \<Rightarrow> string \<Rightarrow> int \<Rightarrow> string \<Rightarrow> string \<Rightarrow> string" where
  "import_failed_message R action backend version e error_hint =
     ''Cannot import a default strategy for: ''
       @ identity_repr R (action_value action, backend, version)
       @ ''. Error: '' @ e @ ''. Hint: '' @ error_hint"

definition get_default_strategy ::
  "py_builtins \<Rightarrow> ('s, 'w) backends \<Rightarrow> StrategyAction \<Rightarrow> string \<Rightarrow> int \<Rightarrow> ('s, 'w) py_state
     \<Rightarrow> (py_exception + 's) \<times> ('s, 'w) py_state" where
  "get_default_strategy R B action backend version st =
     (case try_activate B backend st of
        (error_hint, Some e, st1) \<Rightarrow>
          (case e of
             ImportError m \<Rightarrow>
               (Inl (CheckpointingException
                       (import_failed_message R action backend version m error_hint) e), st1)
           | _ \<Rightarrow> (Inl e, st1))
      | (error_hint, None, st1) \<Rightarrow> lookup_default_strategy R action backend version st1)"

text \<open>The entry of the registry for an identity, read without changing the state.\<close>

definition registered ::
  "('s, 'w) py_state \<Rightarrow> StrategyAction \<Rightarrow> string \<Rightarrow> int \<Rightarrow> 's option" where
  "registered st action backend version =
     (case default_strategies st (action_value action) of
        None \<Rightarrow> None
      | Some d \<Rightarrow> d (backend, version))"


subsection \<open>Backend routines as the design describes them\<close>

text \<open>
  Modelled from the spec: the bodies of \<^verbatim>\<open>register_default_tensorstore_strategies\<close>,
  \<^verbatim>\<open>register_default_zarr_strategies\<close> and \<^verbatim>\<open>register_default_torch_strategies\<close>, which
  live in the backend modules.  The design describes a backend's self-registration
  routine as a side-effecting call that itself performs zero or more \<^verbatim>\<open>register\<close>
  calls, and that may fail when a dependency is missing.  \<open>registration_routine rs x\<close>
  performs the registrations \<open>rs\<close> in order and then raises \<open>x\<close> if there is one; a
  failing import is the case \<open>rs = []\<close>.
\<close>

fun run_registrations ::
  "(StrategyAction \<times> string \<times> int \<times> 's) list \<Rightarrow> ('s, 'w) py_state \<Rightarrow> ('s, 'w) py_state" where
  "run_registrations [] st = st"
| "run_registrations ((a, b, v, s) # rs) st =
     run_registrations rs (register_default_strategy a b v s st)"

definition registration_routine ::
  "(StrategyAction \<times> string \<times> int \<times> 's) list \<Rightarrow> py_exception option \<Rightarrow> ('s, 'w) routine" where
  "registration_routine rs x st = (x, run_registrations rs st)"

subsection \<open>Load strategies\<close>

text \<open>
  A strategy object is the record of what a subclass supplies: the name of its class
  (\<^verbatim>\<open>self.__class__.__name__\<close>), the value of the property
  \<^verbatim>\<open>can_handle_sharded_objects\<close> (\<open>False\<close> unless overridden) and its implementations
  of the abstract methods.  A method takes the checkpoint directory and the state of
  the storage and returns a result or an exception, with the new state.
\<close>

record LoadStrategyBase =
  class_name :: string
  can_handle_sharded_objects :: bool

record ('d, 'o, 'w) LoadCommonStrategy = LoadStrategyBase +
  load_common :: "string \<Rightarrow> 'w \<Rightarrow> (py_exception + 'd) \<times> 'w"
  load_sharded_objects :: "'o \<Rightarrow> string \<Rightarrow> 'w \<Rightarrow> (py_exception + 'd) \<times> 'w"

text \<open>\<^verbatim>\<open>LoadCommonStrategy.load_sharded_metadata\<close> (lines 128 to 132).\<close>

definition LoadCommonStrategy_load_sharded_metadata ::
  "('d, 'o, 'w) LoadCommonStrategy \<Rightarrow> string \<Rightarrow> 'w \<Rightarrow> (py_exception + (string \<rightharpoonup> 'v)) \<times> 'w" where
  "LoadCommonStrategy_load_sharded_metadata self checkpoint_dir w =
     (if \<not> can_handle_sharded_objects self then (Inr Map.empty, w)
      else (Inl (NotImplementedError []), w))"

record ('v, 'w) LoadShardedStrategy = LoadStrategyBase +
  load_tensors_metadata :: "string \<Rightarrow> 'w \<Rightarrow> (py_exception + (string \<rightharpoonup> 'v)) \<times> 'w"

text \<open>
  The body that the abstract \<^verbatim>\<open>LoadShardedStrategy.load_tensors_metadata\<close> has in the
  base class (lines 154 to 156), which a subclass reaches through \<^verbatim>\<open>super()\<close>.
\<close>

definition LoadShardedStrategy_load_tensors_metadata ::
  "string \<Rightarrow> string \<Rightarrow> 'w \<Rightarrow> (py_exception + (string \<rightharpoonup> 'v)) \<times> 'w" where
  "LoadShardedStrategy_load_tensors_metadata cls checkpoint_dir w =
     (Inl (NotImplementedError (''Loading only tensors metadata not implemented for '' @ cls)), w)"

text \<open>\<^verbatim>\<open>LoadShardedStrategy.load_sharded_metadata\<close> (lines 158 to 171).\<close>

definition LoadShardedStrategy_load_sharded_metadata ::
  "('v, 'w) LoadShardedStrategy \<Rightarrow> string \<Rightarrow> 'w \<Rightarrow> (py_exception + (string \<rightharpoonup> 'v)) \<times> 'w" where
  "LoadShardedStrategy_load_sharded_metadata self checkpoint_dir w =
     (if \<not> can_handle_sharded_objects self then load_tensors_metadata self checkpoint_dir w
      else (Inl (NotImplementedError
                  (''Loading only sharded metadata not implemented for '' @ class_name self)), w))"

subsection \<open>Async save strategies\<close>

text \<open>
  \<^verbatim>\<open>AsyncCallsQueue\<close> and \<^verbatim>\<open>AsyncRequest\<close> come from \<^verbatim>\<open>async_utils\<close>.  The two methods
  of the queue that \<^verbatim>\<open>save\<close> calls are parameters: transformers of the program state
  \<open>'q\<close>, which holds the queue, its worker and the storage they write to.
\<close>

record ('req, 'q) AsyncCallsQueue =
  schedule_async_request :: "'req \<Rightarrow> 'q \<Rightarrow> (py_exception + unit) \<times> 'q"
  maybe_finalize_async_calls :: "bool \<Rightarrow> 'q \<Rightarrow> (py_exception + bool) \<times> 'q"

record ('sd, 'req, 'q) AsyncSaveShardedStrategy =
  async_save :: "'sd \<Rightarrow> string \<Rightarrow> 'q \<Rightarrow> (py_exception + 'req) \<times> 'q"

text \<open>
  \<^verbatim>\<open>AsyncSaveShardedStrategy.save\<close> (lines 221 to 228), with \<open>async_calls\<close> the
  module-level queue.  An exception of any of the three calls leaves the method at once;
  the method itself returns \<^verbatim>\<open>None\<close>.
\<close>

definition AsyncSaveShardedStrategy_save ::
  "('req, 'q) AsyncCallsQueue \<Rightarrow> ('sd, 'req, 'q) AsyncSaveShardedStrategy
     \<Rightarrow> 'sd \<Rightarrow> string \<Rightarrow> 'q \<Rightarrow> (py_exception + unit) \<times> 'q" where
  "AsyncSaveShardedStrategy_save async_calls self sharded_state_dict checkpoint_dir st =
     (case async_save self sharded_state_dict checkpoint_dir st of
        (Inl e, st1) \<Rightarrow> (Inl e, st1)
      | (Inr async_request, st1) \<Rightarrow>
          (case schedule_async_request async_calls async_request st1 of
             (Inl e, st2) \<Rightarrow> (Inl e, st2)
           | (Inr u, st2) \<Rightarrow>
               (case maybe_finalize_async_calls async_calls True st2 of
                  (Inl e, st3) \<Rightarrow> (Inl e, st3)
                | (Inr r, st3) \<Rightarrow> (Inr (), st3))))"

text \<open>
  The path the design describes for a caller that does not use \<^verbatim>\<open>save\<close>: call
  \<^verbatim>\<open>async_save\<close> to obtain a request, schedule that request on the shared queue,
  then call \<^verbatim>\<open>maybe_finalize_async_calls\<close> with \<^verbatim>\<open>blocking=True\<close>.  \<open>then_call\<close> is
  the sequencing of two statements: the second runs on the state the first leaves,
  unless the first raised.
\<close>

definition then_call ::
  "('q \<Rightarrow> (py_exception + 'a) \<times> 'q) \<Rightarrow> ('a \<Rightarrow> 'q \<Rightarrow> (py_exception + 'b) \<times> 'q)
     \<Rightarrow> 'q \<Rightarrow> (py_exception + 'b) \<times> 'q" where
  "then_call m f st = (case m st of (Inl e, st1) \<Rightarrow> (Inl e, st1) | (Inr x, st1) \<Rightarrow> f x st1)"

definition async_save_schedule_finalize ::
  "('req, 'q) AsyncCallsQueue \<Rightarrow> ('sd, 'req, 'q) AsyncSaveShardedStrategy
     \<Rightarrow> 'sd \<Rightarrow> string \<Rightarrow> 'q \<Rightarrow> (py_exception + bool) \<times> 'q" where
  "async_save_schedule_finalize async_calls self sharded_state_dict checkpoint_dir =
     then_call (async_save self sharded_state_dict checkpoint_dir)
       (\<lambda>async_request.
          then_call (schedule_async_request async_calls async_request)
            (\<lambda>u. maybe_finalize_async_calls async_calls True))"

subsection \<open>Concrete environments for the examples\<close>

text \<open>Decimal digits of a natural number, and \<^verbatim>\<open>repr\<close> of an \<^verbatim>\<open>int\<close>.\<close>

fun digits10 :: "nat \<Rightarrow> string" where
  "digits10 n =
     (if n < 10 then [''0123456789'' ! n]
      else digits10 (n div 10) @ [''0123456789'' ! (n mod 10)])"

definition int_repr :: "int \<Rightarrow> string" where
  "int_repr i = (if i < 0 then ''-'' @ digits10 (nat (- i)) else digits10 (nat i))"

text \<open>
  \<^verbatim>\<open>repr\<close> of a \<^verbatim>\<open>str\<close> that has no quote, backslash or control character: the string
  between two single quotes.
\<close>

definition plain_builtins :: py_builtins where
  "plain_builtins = \<lparr>repr_str = (\<lambda>s. [CHR 0x27] @ s @ [CHR 0x27]), repr_int = int_repr\<rparr>"

text \<open>A fresh interpreter: nothing registered.\<close>

definition fresh_state :: "'w \<Rightarrow> ('s, 'w) py_state" where
  "fresh_state w = \<lparr>default_strategies = Map.empty, world = w\<rparr>"

text \<open>A routine that registers nothing and returns.\<close>

definition no_op_routine :: "('s, 'w) routine" where
  "no_op_routine st = (None, st)"

text \<open>An installation without the \<^verbatim>\<open>tensorstore\<close> package: its import fails.\<close>

definition tensorstore_missing :: "('s, 'w) backends" where
  "tensorstore_missing =
     \<lparr>register_default_tensorstore_strategies =
        registration_routine [] (Some (ImportError ''No module named tensorstore'')),
      register_default_zarr_strategies = no_op_routine,
      register_default_torch_strategies = no_op_routine\<rparr>"

text \<open>
  An installation whose torch backend registers its own default load strategy (the
  instance \<open>0\<close>) each time the routine runs.
\<close>

definition torch_registers_default :: "(nat, 'w) backends" where
  "torch_registers_default =
     \<lparr>register_default_tensorstore_strategies = no_op_routine,
      register_default_zarr_strategies = no_op_routine,
      register_default_torch_strategies =
        registration_routine [(LOAD_SHARDED, ''torch_dist'', 1, 0)] None\<rparr>"

text \<open>An installation whose torch backend fails with an error that is no \<^verbatim>\<open>ImportError\<close>.\<close>

definition torch_broken :: "('s, 'w) backends" where
  "torch_broken =
     \<lparr>register_default_tensorstore_strategies = no_op_routine,
      register_default_zarr_strategies = no_op_routine,
      register_default_torch_strategies =
        registration_routine [] (Some (OtherError ''RuntimeError'' ''operator not found''))\<rparr>"

text \<open>
  Routines that register nothing and count their own invocations in the \<open>world\<close>.
\<close>

definition counting_routine :: "('s, nat) routine" where
  "counting_routine st = (None, st\<lparr>world := Suc (world st)\<rparr>)"

definition counting_backends :: "('s, nat) backends" where
  "counting_backends =
     \<lparr>register_default_tensorstore_strategies = counting_routine,
      register_default_zarr_strategies = counting_routine,
      register_default_torch_strategies = counting_routine\<rparr>"

text \<open>
  A sharded load strategy that cannot handle sharded objects and whose
  \<^verbatim>\<open>load_tensors_metadata\<close> finds one tensor, stored under the key \<open>weight\<close>.
\<close>

definition one_tensor_strategy :: "(nat, unit) LoadShardedStrategy" where
  "one_tensor_strategy =
     \<lparr>class_name = ''OneTensorLoadStrategy'', can_handle_sharded_objects = False,
      load_tensors_metadata = (\<lambda>checkpoint_dir w. (Inr [''weight'' \<mapsto> 7], w))\<rparr>"

text \<open>
  A common load strategy that leaves \<^verbatim>\<open>can_handle_sharded_objects\<close> at its default.
\<close>

definition plain_common_strategy :: "(unit, unit, unit) LoadCommonStrategy" where
  "plain_common_strategy =
     \<lparr>class_name = ''PlainLoadCommonStrategy'', can_handle_sharded_objects = False,
      load_common = (\<lambda>checkpoint_dir w. (Inr (), w)),
      load_sharded_objects = (\<lambda>objs checkpoint_dir w. (Inr (), w))\<rparr>"

text \<open>
  An installation with \<^verbatim>\<open>tensorstore\<close>, whose routine registers the instance \<open>1\<close>, but
  without the \<^verbatim>\<open>zarr\<close> package.
\<close>

definition zarr_missing :: "(nat, 'w) backends" where
  "zarr_missing =
     \<lparr>register_default_tensorstore_strategies =
        registration_routine [(LOAD_SHARDED, ''zarr'', 1, 1)] None,
      register_default_zarr_strategies =
        registration_routine [] (Some (ImportError ''No module named zarr'')),
      register_default_torch_strategies = no_op_routine\<rparr>"

text \<open>An installation whose PyTorch is too old for the torch backend to import.\<close>

definition torch_too_old :: "('s, 'w) backends" where
  "torch_too_old =
     \<lparr>register_default_tensorstore_strategies = no_op_routine,
      register_default_zarr_strategies = no_op_routine,
      register_default_torch_strategies =
        registration_routine [] (Some (ImportError ''cannot import name DefaultSavePlanner''))\<rparr>"

text \<open>
  An installation where the tensorstore routine registers the instance \<open>1\<close> and the zarr
  routine the instance \<open>2\<close>, both for \<open>(LOAD_SHARDED, zarr, 1)\<close>.
\<close>

definition zarr_registers_defaults :: "(nat, 'w) backends" where
  "zarr_registers_defaults =
     \<lparr>register_default_tensorstore_strategies =
        registration_routine [(LOAD_SHARDED, ''zarr'', 1, 1)] None,
      register_default_zarr_strategies =
        registration_routine [(LOAD_SHARDED, ''zarr'', 1, 2)] None,
      register_default_torch_strategies = no_op_routine\<rparr>"

section \<open>Properties\<close>

subsection \<open>Auxiliary facts about the registry\<close>

lemmas example_defs =
  get_default_strategy_def try_activate_def lookup_default_strategy_def
  register_default_strategy_def defaultdict_getitem_def registration_routine_def
  no_op_routine_def fresh_state_def import_failed_message_def not_found_message_def
  identity_repr_def plain_builtins_def int_repr_def zarr_hint_def torch_hint_def
  registered_def

lemma action_value_eq_iff: "action_value a = action_value a' \<longleftrightarrow> a = a'"
  by (cases a; cases a'; simp)

lemma registered_register:
  "registered (register_default_strategy a b v s st) a' b' v' =
     (if a' = a \<and> b' = b \<and> v' = v then Some s else registered st a' b' v')"
  by (auto simp: registered_def register_default_strategy_def defaultdict_getitem_def
        action_value_eq_iff split: option.splits)

lemma fst_lookup_default_strategy:
  "fst (lookup_default_strategy R a b v st) =
     (case registered st a b v of
        Some s \<Rightarrow> Inr s
      | None \<Rightarrow> Inl (CheckpointingException (not_found_message R a b v) (KeyError (b, v))))"
  by (simp add: lookup_default_strategy_def registered_def defaultdict_getitem_def
        split: option.splits)

lemma world_lookup_default_strategy:
  "world (snd (lookup_default_strategy R a b v st)) = world st"
  by (simp add: lookup_default_strategy_def defaultdict_getitem_def split: option.splits)

lemma registered_run_registrations:
  "registered st a b v = registered st' a b v \<Longrightarrow>
   registered (run_registrations rs st) a b v = registered (run_registrations rs st') a b v"
proof (induction rs arbitrary: st st')
  case Nil
  then show ?case by simp
next
  case (Cons r rs)
  obtain a1 b1 v1 s1 where r: "r = (a1, b1, v1, s1)"
    by (cases r) auto
  have "registered (register_default_strategy a1 b1 v1 s1 st) a b v =
        registered (register_default_strategy a1 b1 v1 s1 st') a b v"
    using Cons.prems by (simp add: registered_register)
  then show ?case
    using Cons.IH r by simp
qed

lemma try_activate_other:
  "backend \<noteq> ''zarr'' \<Longrightarrow> backend \<noteq> ''torch_dist'' \<Longrightarrow>
   try_activate B backend st = ([], None, st)"
  by (simp add: try_activate_def)

lemma try_activate_raises_hint:
  "try_activate B backend st = (h, Some e, st1) \<Longrightarrow>
   (backend = ''zarr'' \<and> h = zarr_hint) \<or> (backend = ''torch_dist'' \<and> h = torch_hint)"
  by (auto simp: try_activate_def split: if_splits prod.splits option.splits)

lemma get_default_strategy_returned:
  "try_activate B b st = (h, None, st1) \<Longrightarrow>
   get_default_strategy R B a b v st = lookup_default_strategy R a b v st1"
  by (simp add: get_default_strategy_def)

lemma get_default_strategy_import_error:
  "try_activate B b st = (h, Some (ImportError m), st1) \<Longrightarrow>
   get_default_strategy R B a b v st =
     (Inl (CheckpointingException (import_failed_message R a b v m h) (ImportError m)), st1)"
  by (simp add: get_default_strategy_def)

lemma get_default_strategy_other_error:
  "try_activate B b st = (h, Some e, st1) \<Longrightarrow> \<forall>m. e \<noteq> ImportError m \<Longrightarrow>
   get_default_strategy R B a b v st = (Inl e, st1)"
  by (cases e) (simp_all add: get_default_strategy_def)

lemma fst_get_default_strategy_cong:
  assumes "try_activate B b st = (h, x, st1)"
    and "try_activate B b st' = (h, x, st1')"
    and "registered st1 a b v = registered st1' a b v"
  shows "fst (get_default_strategy R B a b v st) = fst (get_default_strategy R B a b v st')"
proof (cases x)
  case None
  then show ?thesis
    using assms by (simp add: get_default_strategy_returned fst_lookup_default_strategy)
next
  case (Some e)
  then show ?thesis
    using assms by (cases e) (simp_all add: get_default_strategy_def)
qed

subsection \<open>Register, then resolve\<close>

text \<open>
  C1, as the code has it.  \<^verbatim>\<open>get_default_strategy\<close> first runs the backend's routines
  (for \<^verbatim>\<open>zarr\<close> and \<^verbatim>\<open>torch_dist\<close>; for any other backend the first block does
  nothing).  When that block returns normally and leaves the entry of the identity as
  the registration made it, the call returns the registered instance \<open>s\<close> itself.
\<close>

theorem register_then_get_returns_instance:
  assumes "try_activate B backend (register_default_strategy action backend version s st)
             = (hint, None, st1)"
    and "registered st1 action backend version
           = registered (register_default_strategy action backend version s st)
               action backend version"
  shows "fst (get_default_strategy R B action backend version
                (register_default_strategy action backend version s st)) = Inr s"
  using assms
  by (simp add: get_default_strategy_returned fst_lookup_default_strategy registered_register)

text \<open>
  The theorem at the identity \<open>(SAVE_SHARDED, torch_dist, 1)\<close>, with a torch routine
  that registers its default for another identity.
\<close>

theorem register_then_get_returns_instance_witness:
  "try_activate torch_registers_default ''torch_dist''
       (register_default_strategy SAVE_SHARDED ''torch_dist'' 1 5 (fresh_state ()))
     = (torch_hint, None,
        run_registrations [(LOAD_SHARDED, ''torch_dist'', 1, 0)]
          (register_default_strategy SAVE_SHARDED ''torch_dist'' 1 5 (fresh_state ())))
   \<and> fst (get_default_strategy plain_builtins torch_registers_default SAVE_SHARDED ''torch_dist'' 1
            (register_default_strategy SAVE_SHARDED ''torch_dist'' 1 5 (fresh_state ())))
        = Inr 5"
proof -
  let ?st0 = "register_default_strategy SAVE_SHARDED ''torch_dist'' 1 (5::nat) (fresh_state ())"
  let ?st1 = "run_registrations [(LOAD_SHARDED, ''torch_dist'', 1, 0)] ?st0"
  have h1: "try_activate torch_registers_default ''torch_dist'' ?st0 = (torch_hint, None, ?st1)"
    by (simp add: try_activate_def torch_registers_default_def registration_routine_def)
  have h2: "registered ?st1 SAVE_SHARDED ''torch_dist'' 1
              = registered ?st0 SAVE_SHARDED ''torch_dist'' 1"
    by (simp add: registered_register)
  show ?thesis
    using h1 register_then_get_returns_instance [OF h1 h2, of plain_builtins] by simp
qed

text \<open>
  C1 as stated fails where the backend's dependency is missing: after registering the
  instance \<open>5\<close> for \<open>(LOAD_SHARDED, zarr, 1)\<close>, resolving that identity raises, because
  the import of \<^verbatim>\<open>tensorstore\<close> is attempted first.
\<close>

theorem register_then_get_raises_when_import_fails:
  "fst (get_default_strategy plain_builtins tensorstore_missing LOAD_SHARDED ''zarr'' 1
          (register_default_strategy LOAD_SHARDED ''zarr'' 1 (5::nat) (fresh_state ())))
     = Inl (CheckpointingException
         ''Cannot import a default strategy for: ('load_sharded', 'zarr', 1). Error: No module named tensorstore. Hint:  Please install `zarr` and `tensorstore!=0.1.46` packages''
         (ImportError ''No module named tensorstore''))"
  by (simp add: example_defs tensorstore_missing_def)

subsection \<open>Registering twice\<close>

text \<open>
  C7, as the code has it.  After two registrations under one identity the entry of the
  registry is the second instance; \<^verbatim>\<open>get_default_strategy\<close> returns it when the
  backend's routines, which the call runs first, return normally and leave that entry
  in place.
\<close>

theorem last_registration_wins:
  assumes "try_activate B backend
             (register_default_strategy action backend version s2
                (register_default_strategy action backend version s1 st))
             = (hint, None, st1)"
    and "registered st1 action backend version
           = registered (register_default_strategy action backend version s2
                           (register_default_strategy action backend version s1 st))
               action backend version"
  shows "registered (register_default_strategy action backend version s2
                       (register_default_strategy action backend version s1 st))
           action backend version = Some s2
       \<and> fst (get_default_strategy R B action backend version
                (register_default_strategy action backend version s2
                   (register_default_strategy action backend version s1 st))) = Inr s2"
  using assms
  by (simp add: get_default_strategy_returned fst_lookup_default_strategy registered_register)

text \<open>
  The theorem at the identity \<open>(LOAD_COMMON, zarr, 2)\<close>, with routines that only count
  their invocations.
\<close>

theorem last_registration_wins_witness:
  "registered (register_default_strategy LOAD_COMMON ''zarr'' 2 (6::nat)
                 (register_default_strategy LOAD_COMMON ''zarr'' 2 5 (fresh_state (0::nat))))
       LOAD_COMMON ''zarr'' 2 = Some 6
   \<and> fst (get_default_strategy plain_builtins counting_backends LOAD_COMMON ''zarr'' 2
            (register_default_strategy LOAD_COMMON ''zarr'' 2 (6::nat)
               (register_default_strategy LOAD_COMMON ''zarr'' 2 5 (fresh_state (0::nat))))) = Inr 6"
proof -
  let ?st0 = "register_default_strategy LOAD_COMMON ''zarr'' 2 (6::nat)
                (register_default_strategy LOAD_COMMON ''zarr'' 2 5 (fresh_state (0::nat)))"
  let ?st1 = "?st0\<lparr>world := 2::nat\<rparr>"
  have h1: "try_activate counting_backends ''zarr'' ?st0 = (zarr_hint, None, ?st1)"
    by (simp add: try_activate_def counting_backends_def counting_routine_def
          register_default_strategy_def defaultdict_getitem_def fresh_state_def)
  have h2: "registered ?st1 LOAD_COMMON ''zarr'' 2 = registered ?st0 LOAD_COMMON ''zarr'' 2"
    by (simp add: registered_def)
  show ?thesis
    using last_registration_wins [OF h1 h2, of plain_builtins] by simp
qed

text \<open>
  C7 as stated fails where the backend's routine registers its own default for the
  identity: after registering \<open>5\<close> and then \<open>6\<close> for \<open>(LOAD_SHARDED, torch_dist, 1)\<close>,
  resolving returns the instance \<open>0\<close> that the torch routine has just registered.
\<close>

theorem last_registration_overwritten_by_backend_default:
  "fst (get_default_strategy plain_builtins torch_registers_default LOAD_SHARDED ''torch_dist'' 1
          (register_default_strategy LOAD_SHARDED ''torch_dist'' 1 6
             (register_default_strategy LOAD_SHARDED ''torch_dist'' 1 5 (fresh_state ()))))
     = Inr 0"
  by (simp add: example_defs torch_registers_default_def)

subsection \<open>Failures of resolution\<close>

text \<open>
  C3.  For a backend other than \<^verbatim>\<open>zarr\<close> and \<^verbatim>\<open>torch_dist\<close> (no routine is run) and
  an identity without an entry, \<^verbatim>\<open>get_default_strategy\<close> raises the
  \<^verbatim>\<open>CheckpointingException\<close> that says no default strategy was found, caused by the
  \<^verbatim>\<open>KeyError\<close>.  It raises the same exception when the backend's routines return
  normally and the state they leave has no entry for the identity.
\<close>

theorem get_default_strategy_not_found:
  "(backend \<noteq> ''zarr'' \<longrightarrow> backend \<noteq> ''torch_dist'' \<longrightarrow>
      registered st action backend version = None \<longrightarrow>
      fst (get_default_strategy R B action backend version st)
        = Inl (CheckpointingException
                 (''Cannot find a default strategy for: ''
                    @ identity_repr R (action_value action, backend, version))
                 (KeyError (backend, version))))
   \<and> (try_activate B backend st = (hint, None, st') \<longrightarrow>
      registered st' action backend version = None \<longrightarrow>
      fst (get_default_strategy R B action backend version st)
        = Inl (CheckpointingException
                 (''Cannot find a default strategy for: ''
                    @ identity_repr R (action_value action, backend, version))
                 (KeyError (backend, version))))"
proof -
  have second: "fst (get_default_strategy R B action backend version st)
        = Inl (CheckpointingException (not_found_message R action backend version)
                 (KeyError (backend, version)))"
    if "try_activate B backend st = (h, None, st2)"
      and "registered st2 action backend version = None" for h st2
    using that by (simp add: get_default_strategy_returned fst_lookup_default_strategy)
  show ?thesis
    using second [of "[]" st] second [of hint st']
    by (simp add: try_activate_other not_found_message_def)
qed

text \<open>
  The theorem at a backend without routine (\<open>local\<close>, nothing registered) and at
  \<^verbatim>\<open>torch_dist\<close>, whose routine registers a load strategy only, for a save identity.
\<close>

theorem get_default_strategy_not_found_witness:
  "fst (get_default_strategy plain_builtins tensorstore_missing LOAD_COMMON ''local'' 3
          (fresh_state () :: (nat, unit) py_state))
     = Inl (CheckpointingException
              ''Cannot find a default strategy for: ('load_common', 'local', 3)''
              (KeyError (''local'', 3)))
   \<and> fst (get_default_strategy plain_builtins torch_registers_default SAVE_SHARDED ''torch_dist'' 1
            (fresh_state ()))
     = Inl (CheckpointingException
              ''Cannot find a default strategy for: ('save_sharded', 'torch_dist', 1)''
              (KeyError (''torch_dist'', 1)))"
proof -
  let ?st = "fresh_state () :: (nat, unit) py_state"
  let ?st1 = "run_registrations [(LOAD_SHARDED, ''torch_dist'', 1, 0)] ?st"
  have a: "registered ?st LOAD_COMMON ''local'' 3 = None"
    by (simp add: registered_def fresh_state_def)
  have b: "try_activate torch_registers_default ''torch_dist'' ?st = (torch_hint, None, ?st1)"
    by (simp add: try_activate_def torch_registers_default_def registration_routine_def)
  have c: "registered ?st1 SAVE_SHARDED ''torch_dist'' 1 = None"
    by (simp add: registered_register) (simp add: registered_def fresh_state_def)
  have first: "fst (get_default_strategy plain_builtins tensorstore_missing LOAD_COMMON ''local'' 3 ?st)
      = Inl (CheckpointingException
               (''Cannot find a default strategy for: ''
                  @ identity_repr plain_builtins (action_value LOAD_COMMON, ''local'', 3))
               (KeyError (''local'', 3)))"
    using a
      get_default_strategy_not_found
        [where backend = "''local''" and st = ?st and action = LOAD_COMMON and version = 3
           and R = plain_builtins and B = tensorstore_missing, THEN conjunct1]
    by simp
  have second: "fst (get_default_strategy plain_builtins torch_registers_default SAVE_SHARDED
                       ''torch_dist'' 1 ?st)
      = Inl (CheckpointingException
               (''Cannot find a default strategy for: ''
                  @ identity_repr plain_builtins (action_value SAVE_SHARDED, ''torch_dist'', 1))
               (KeyError (''torch_dist'', 1)))"
    using b c
      get_default_strategy_not_found
        [where backend = "''torch_dist''" and st = ?st and action = SAVE_SHARDED
           and version = 1 and R = plain_builtins and B = torch_registers_default
           and hint = torch_hint and st' = ?st1, THEN conjunct2]
    by simp
  show ?thesis
    using first second by (simp add: identity_repr_def plain_builtins_def int_repr_def)
qed

text \<open>
  C4.  When a routine of the backend raises an \<^verbatim>\<open>ImportError\<close> (for \<^verbatim>\<open>zarr\<close> the
  tensorstore routine, or the zarr routine after the tensorstore routine has returned;
  for \<^verbatim>\<open>torch_dist\<close> the torch routine), \<^verbatim>\<open>get_default_strategy\<close> raises a
  \<^verbatim>\<open>CheckpointingException\<close> caused by it, whose message holds the identity, the text
  of the import error and the installation hint of that backend.  The state is the one
  in which the routine raised.
\<close>

theorem get_default_strategy_import_failure:
  "(register_default_tensorstore_strategies B st = (Some (ImportError m), st') \<longrightarrow>
      get_default_strategy R B action ''zarr'' version st
        = (Inl (CheckpointingException
                  (''Cannot import a default strategy for: ''
                     @ identity_repr R (action_value action, ''zarr'', version)
                     @ ''. Error: '' @ m @ ''. Hint: ''
                     @ '' Please install `zarr` and `tensorstore!=0.1.46` packages'')
                  (ImportError m)), st'))
   \<and> (register_default_tensorstore_strategies B st = (None, stm) \<longrightarrow>
      register_default_zarr_strategies B stm = (Some (ImportError m), st') \<longrightarrow>
      get_default_strategy R B action ''zarr'' version st
        = (Inl (CheckpointingException
                  (''Cannot import a default strategy for: ''
                     @ identity_repr R (action_value action, ''zarr'', version)
                     @ ''. Error: '' @ m @ ''. Hint: ''
                     @ '' Please install `zarr` and `tensorstore!=0.1.46` packages'')
                  (ImportError m)), st'))
   \<and> (register_default_torch_strategies B st = (Some (ImportError m), st') \<longrightarrow>
      get_default_strategy R B action ''torch_dist'' version st
        = (Inl (CheckpointingException
                  (''Cannot import a default strategy for: ''
                     @ identity_repr R (action_value action, ''torch_dist'', version)
                     @ ''. Error: '' @ m @ ''. Hint: ''
                     @ '' Please use PyTorch version >=2.1'')
                  (ImportError m)), st'))"
  by (simp add: get_default_strategy_def try_activate_def import_failed_message_def
        zarr_hint_def torch_hint_def)

text \<open>
  The theorem on three installations: without \<^verbatim>\<open>tensorstore\<close>, without \<^verbatim>\<open>zarr\<close>, and
  with a PyTorch that is too old.
\<close>

theorem get_default_strategy_import_failure_witness:
  "fst (get_default_strategy plain_builtins tensorstore_missing SAVE_SHARDED ''zarr'' 1
          (fresh_state () :: (nat, unit) py_state))
     = Inl (CheckpointingException
              ''Cannot import a default strategy for: ('save_sharded', 'zarr', 1). Error: No module named tensorstore. Hint:  Please install `zarr` and `tensorstore!=0.1.46` packages''
              (ImportError ''No module named tensorstore''))
   \<and> fst (get_default_strategy plain_builtins zarr_missing LOAD_SHARDED ''zarr'' 1
            (fresh_state () :: (nat, unit) py_state))
     = Inl (CheckpointingException
              ''Cannot import a default strategy for: ('load_sharded', 'zarr', 1). Error: No module named zarr. Hint:  Please install `zarr` and `tensorstore!=0.1.46` packages''
              (ImportError ''No module named zarr''))
   \<and> fst (get_default_strategy plain_builtins torch_too_old LOAD_COMMON ''torch_dist'' 2
            (fresh_state () :: (nat, unit) py_state))
     = Inl (CheckpointingException
              ''Cannot import a default strategy for: ('load_common', 'torch_dist', 2). Error: cannot import name DefaultSavePlanner. Hint:  Please use PyTorch version >=2.1''
              (ImportError ''cannot import name DefaultSavePlanner''))"
proof -
  let ?st = "fresh_state () :: (nat, unit) py_state"
  let ?stm = "run_registrations [(LOAD_SHARDED, ''zarr'', 1, 1)] ?st"
  have h1: "register_default_tensorstore_strategies tensorstore_missing ?st
              = (Some (ImportError ''No module named tensorstore''), ?st)"
    by (simp add: tensorstore_missing_def registration_routine_def)
  have h2: "register_default_tensorstore_strategies zarr_missing ?st = (None, ?stm)"
    and h3: "register_default_zarr_strategies zarr_missing ?stm
               = (Some (ImportError ''No module named zarr''), ?stm)"
    by (simp_all add: zarr_missing_def registration_routine_def)
  have h4: "register_default_torch_strategies torch_too_old ?st
              = (Some (ImportError ''cannot import name DefaultSavePlanner''), ?st)"
    by (simp add: torch_too_old_def registration_routine_def)
  have c1: "fst (get_default_strategy plain_builtins tensorstore_missing SAVE_SHARDED ''zarr'' 1 ?st)
      = Inl (CheckpointingException
               (''Cannot import a default strategy for: ''
                  @ identity_repr plain_builtins (action_value SAVE_SHARDED, ''zarr'', 1)
                  @ ''. Error: '' @ ''No module named tensorstore'' @ ''. Hint: ''
                  @ '' Please install `zarr` and `tensorstore!=0.1.46` packages'')
               (ImportError ''No module named tensorstore''))"
    using h1
      get_default_strategy_import_failure
        [where B = tensorstore_missing and st = ?st and st' = ?st
           and m = "''No module named tensorstore''" and R = plain_builtins
           and action = SAVE_SHARDED and version = 1, THEN conjunct1]
    by simp
  have c2: "fst (get_default_strategy plain_builtins zarr_missing LOAD_SHARDED ''zarr'' 1 ?st)
      = Inl (CheckpointingException
               (''Cannot import a default strategy for: ''
                  @ identity_repr plain_builtins (action_value LOAD_SHARDED, ''zarr'', 1)
                  @ ''. Error: '' @ ''No module named zarr'' @ ''. Hint: ''
                  @ '' Please install `zarr` and `tensorstore!=0.1.46` packages'')
               (ImportError ''No module named zarr''))"
    using h2 h3
      get_default_strategy_import_failure
        [where B = zarr_missing and st = ?st and stm = ?stm and st' = ?stm
           and m = "''No module named zarr''" and R = plain_builtins
           and action = LOAD_SHARDED and version = 1, THEN conjunct2, THEN conjunct1]
    by simp
  have c3: "fst (get_default_strategy plain_builtins torch_too_old LOAD_COMMON ''torch_dist'' 2 ?st)
      = Inl (CheckpointingException
               (''Cannot import a default strategy for: ''
                  @ identity_repr plain_builtins (action_value LOAD_COMMON, ''torch_dist'', 2)
                  @ ''. Error: '' @ ''cannot import name DefaultSavePlanner'' @ ''. Hint: ''
                  @ '' Please use PyTorch version >=2.1'')
               (ImportError ''cannot import name DefaultSavePlanner''))"
    using h4
      get_default_strategy_import_failure
        [where B = torch_too_old and st = ?st and st' = ?st
           and m = "''cannot import name DefaultSavePlanner''" and R = plain_builtins
           and action = LOAD_COMMON and version = 2, THEN conjunct2, THEN conjunct2]
    by simp
  show ?thesis
    using c1 c2 c3 by (simp add: identity_repr_def plain_builtins_def int_repr_def)
qed

subsection \<open>When the backend routines run\<close>

text \<open>
  C5, as the code has it.  In every state of the registry, a call for \<^verbatim>\<open>zarr\<close> runs
  the tensorstore routine and then, on the state it leaves, the zarr routine, and looks
  the identity up in the state that one leaves; when the tensorstore routine raises,
  the zarr routine is not run.  A call for \<^verbatim>\<open>torch_dist\<close> runs the torch routine and
  looks the identity up in the state it leaves.  A call for any other backend runs no
  routine.  With routines that count their invocations, one call raises the count by
  two, by one and by nothing, respectively.
\<close>

theorem activation_runs_on_every_call:
  "(register_default_tensorstore_strategies B st = (None, stm) \<longrightarrow>
      register_default_zarr_strategies B stm = (None, st') \<longrightarrow>
      get_default_strategy R B action ''zarr'' version st
        = lookup_default_strategy R action ''zarr'' version st')
   \<and> (register_default_tensorstore_strategies B st = (Some e, st') \<longrightarrow>
      snd (get_default_strategy R B action ''zarr'' version st) = st')
   \<and> (register_default_torch_strategies B st = (None, st') \<longrightarrow>
      get_default_strategy R B action ''torch_dist'' version st
        = lookup_default_strategy R action ''torch_dist'' version st')
   \<and> (backend \<noteq> ''zarr'' \<longrightarrow> backend \<noteq> ''torch_dist'' \<longrightarrow>
      get_default_strategy R B action backend version st
        = lookup_default_strategy R action backend version st)
   \<and> world (snd (get_default_strategy R counting_backends action backend version stc))
       = world stc + (if backend = ''zarr'' then 2 else if backend = ''torch_dist'' then 1 else 0)"
proof -
  have zarr_both: "get_default_strategy R B action ''zarr'' version st
        = lookup_default_strategy R action ''zarr'' version st'"
    if "register_default_tensorstore_strategies B st = (None, stm)"
      and "register_default_zarr_strategies B stm = (None, st')"
    using that by (simp add: get_default_strategy_def try_activate_def)
  have zarr_first_raises: "snd (get_default_strategy R B action ''zarr'' version st) = st'"
    if "register_default_tensorstore_strategies B st = (Some e, st')"
    using that by (cases e) (simp_all add: get_default_strategy_def try_activate_def)
  have torch: "get_default_strategy R B action ''torch_dist'' version st
        = lookup_default_strategy R action ''torch_dist'' version st'"
    if "register_default_torch_strategies B st = (None, st')"
    using that by (simp add: get_default_strategy_def try_activate_def)
  have other: "get_default_strategy R B action backend version st
        = lookup_default_strategy R action backend version st"
    if "backend \<noteq> ''zarr''" and "backend \<noteq> ''torch_dist''"
    using that by (simp add: get_default_strategy_returned [OF try_activate_other])
  have "try_activate counting_backends backend stc
          = (if backend = ''zarr'' then (zarr_hint, None, stc\<lparr>world := Suc (Suc (world stc))\<rparr>)
             else if backend = ''torch_dist'' then (torch_hint, None, stc\<lparr>world := Suc (world stc)\<rparr>)
             else ([], None, stc))"
    by (simp add: try_activate_def counting_backends_def counting_routine_def)
  then have count:
    "world (snd (get_default_strategy R counting_backends action backend version stc))
       = world stc + (if backend = ''zarr'' then 2 else if backend = ''torch_dist'' then 1 else 0)"
    by (simp add: get_default_strategy_def world_lookup_default_strategy)
  show ?thesis
    using zarr_both zarr_first_raises torch other count by blast
qed

text \<open>
  The theorem at four calls.  With \<open>5\<close> registered for \<open>(LOAD_SHARDED, zarr, 1)\<close>, a call
  for that identity returns \<open>2\<close>, the instance of the zarr routine, which ran after the
  tensorstore routine had registered \<open>1\<close>.  Without \<^verbatim>\<open>tensorstore\<close> the call ends in the
  state in which its routine raised.  A call for \<^verbatim>\<open>torch_dist\<close> in a fresh interpreter
  returns the instance the torch routine has just registered.  A call for the backend
  \<open>local\<close> finds what is registered and no more.
\<close>

theorem activation_runs_on_every_call_witness:
  "fst (get_default_strategy plain_builtins zarr_registers_defaults LOAD_SHARDED ''zarr'' 1
          (register_default_strategy LOAD_SHARDED ''zarr'' 1 5 (fresh_state ()))) = Inr 2
   \<and> snd (get_default_strategy plain_builtins tensorstore_missing LOAD_SHARDED ''zarr'' 1
            (fresh_state () :: (nat, unit) py_state)) = fresh_state ()
   \<and> fst (get_default_strategy plain_builtins torch_registers_default LOAD_SHARDED ''torch_dist'' 1
            (fresh_state ())) = Inr 0
   \<and> fst (get_default_strategy plain_builtins torch_registers_default LOAD_SHARDED ''local'' 1
            (register_default_strategy LOAD_SHARDED ''local'' 1 5 (fresh_state ()))) = Inr 5"
proof -
  let ?st = "fresh_state () :: (nat, unit) py_state"
  let ?st5 = "register_default_strategy LOAD_SHARDED ''zarr'' 1 (5::nat) ?st"
  let ?stm = "run_registrations [(LOAD_SHARDED, ''zarr'', 1, 1)] ?st5"
  let ?st2 = "run_registrations [(LOAD_SHARDED, ''zarr'', 1, 2)] ?stm"
  let ?stt = "run_registrations [(LOAD_SHARDED, ''torch_dist'', 1, 0)] ?st"
  let ?stl = "register_default_strategy LOAD_SHARDED ''local'' 1 (5::nat) ?st"
  have h1: "register_default_tensorstore_strategies zarr_registers_defaults ?st5 = (None, ?stm)"
    and h2: "register_default_zarr_strategies zarr_registers_defaults ?stm = (None, ?st2)"
    by (simp_all add: zarr_registers_defaults_def registration_routine_def)
  have h3: "register_default_tensorstore_strategies tensorstore_missing ?st
              = (Some (ImportError ''No module named tensorstore''), ?st)"
    by (simp add: tensorstore_missing_def registration_routine_def)
  have h4: "register_default_torch_strategies torch_registers_default ?st = (None, ?stt)"
    by (simp add: torch_registers_default_def registration_routine_def)
  have "get_default_strategy plain_builtins zarr_registers_defaults LOAD_SHARDED ''zarr'' 1 ?st5
          = lookup_default_strategy plain_builtins LOAD_SHARDED ''zarr'' 1 ?st2"
    using h1 h2
      activation_runs_on_every_call
        [where B = zarr_registers_defaults and st = ?st5 and stm = ?stm and st' = ?st2
           and R = plain_builtins and action = LOAD_SHARDED and version = 1, THEN conjunct1]
    by simp
  then have c1: "fst (get_default_strategy plain_builtins zarr_registers_defaults LOAD_SHARDED
                        ''zarr'' 1 ?st5) = Inr 2"
    by (simp add: fst_lookup_default_strategy registered_register)
  have c2: "snd (get_default_strategy plain_builtins tensorstore_missing LOAD_SHARDED ''zarr'' 1 ?st)
              = ?st"
    using h3
      activation_runs_on_every_call
        [where B = tensorstore_missing and st = ?st and st' = ?st
           and e = "ImportError ''No module named tensorstore''"
           and R = plain_builtins and action = LOAD_SHARDED and version = 1,
           THEN conjunct2, THEN conjunct1]
    by simp
  have "get_default_strategy plain_builtins torch_registers_default LOAD_SHARDED ''torch_dist'' 1 ?st
          = lookup_default_strategy plain_builtins LOAD_SHARDED ''torch_dist'' 1 ?stt"
    using h4
      activation_runs_on_every_call
        [where B = torch_registers_default and st = ?st and st' = ?stt
           and R = plain_builtins and action = LOAD_SHARDED and version = 1,
           THEN conjunct2, THEN conjunct2, THEN conjunct1]
    by simp
  then have c3: "fst (get_default_strategy plain_builtins torch_registers_default LOAD_SHARDED
                        ''torch_dist'' 1 ?st) = Inr 0"
    by (simp add: fst_lookup_default_strategy registered_register)
  have "get_default_strategy plain_builtins torch_registers_default LOAD_SHARDED ''local'' 1 ?stl
          = lookup_default_strategy plain_builtins LOAD_SHARDED ''local'' 1 ?stl"
    using
      activation_runs_on_every_call
        [where B = torch_registers_default and st = ?stl and backend = "''local''"
           and R = plain_builtins and action = LOAD_SHARDED and version = 1,
           THEN conjunct2, THEN conjunct2, THEN conjunct2, THEN conjunct1]
    by simp
  then have c4: "fst (get_default_strategy plain_builtins torch_registers_default LOAD_SHARDED
                        ''local'' 1 ?stl) = Inr 5"
    by (simp add: fst_lookup_default_strategy registered_register)
  show ?thesis
    using c1 c2 c3 c4 by simp
qed

text \<open>
  C5 as stated fails: with the instance \<open>5\<close> registered for \<open>(LOAD_SHARDED, zarr, 1)\<close>,
  so that the backend \<^verbatim>\<open>zarr\<close> has a registered strategy, resolving that identity still
  runs both routines of the backend.
\<close>

theorem activation_reruns_for_registered_backend:
  "registered (register_default_strategy LOAD_SHARDED ''zarr'' 1 (5::nat) (fresh_state (0::nat)))
       LOAD_SHARDED ''zarr'' 1 = Some 5
   \<and> world (register_default_strategy LOAD_SHARDED ''zarr'' 1 (5::nat) (fresh_state (0::nat))) = 0
   \<and> world (snd (get_default_strategy plain_builtins counting_backends LOAD_SHARDED ''zarr'' 1
                   (register_default_strategy LOAD_SHARDED ''zarr'' 1 (5::nat)
                      (fresh_state (0::nat))))) = 2"
  by (simp add: example_defs counting_backends_def counting_routine_def)

subsection \<open>Which errors reach the caller\<close>

text \<open>
  C6, as the code has it.  An error of \<^verbatim>\<open>get_default_strategy\<close> is one of three:
  the \<^verbatim>\<open>CheckpointingException\<close> that wraps an \<^verbatim>\<open>ImportError\<close> of the backend's
  routines, with the identity, the error text and the hint in its message; the
  \<^verbatim>\<open>CheckpointingException\<close> that wraps the \<^verbatim>\<open>KeyError\<close> of the lookup, with the
  identity in its message; or an exception of the routines that is no
  \<^verbatim>\<open>ImportError\<close>, which reaches the caller as it was raised.
\<close>

theorem get_default_strategy_error_cases:
  assumes "fst (get_default_strategy R B action backend version st) = Inl x"
  shows "(\<exists>m h st'. try_activate B backend st = (h, Some (ImportError m), st')
            \<and> x = CheckpointingException
                    (''Cannot import a default strategy for: ''
                       @ identity_repr R (action_value action, backend, version)
                       @ ''. Error: '' @ m @ ''. Hint: '' @ h)
                    (ImportError m))
       \<or> (\<exists>h st'. try_activate B backend st = (h, None, st')
            \<and> registered st' action backend version = None
            \<and> x = CheckpointingException
                    (''Cannot find a default strategy for: ''
                       @ identity_repr R (action_value action, backend, version))
                    (KeyError (backend, version)))
       \<or> (\<exists>h st'. try_activate B backend st = (h, Some x, st')
            \<and> (\<forall>m. x \<noteq> ImportError m))"
proof -
  obtain h r st' where ta: "try_activate B backend st = (h, r, st')"
    by (cases "try_activate B backend st") auto
  show ?thesis
  proof (cases r)
    case None
    with ta assms have "registered st' action backend version = None
        \<and> x = CheckpointingException (not_found_message R action backend version)
                (KeyError (backend, version))"
      by (auto simp: get_default_strategy_returned fst_lookup_default_strategy
            split: option.splits)
    with ta None show ?thesis
      by (simp add: not_found_message_def)
  next
    case (Some e)
    show ?thesis
    proof (cases "\<exists>m. e = ImportError m")
      case True
      then obtain m where e: "e = ImportError m" by blast
      with ta Some assms have "x = CheckpointingException
            (import_failed_message R action backend version m h) (ImportError m)"
        by (simp add: get_default_strategy_import_error)
      with ta Some e show ?thesis
        by (simp add: import_failed_message_def)
    next
      case False
      with ta Some assms have "x = e"
        by (simp add: get_default_strategy_other_error)
      with ta Some False show ?thesis
        by simp
    qed
  qed
qed

text \<open>The theorem at a torch backend that fails with a \<^verbatim>\<open>RuntimeError\<close>.\<close>

theorem get_default_strategy_error_cases_witness:
  "fst (get_default_strategy plain_builtins torch_broken LOAD_SHARDED ''torch_dist'' 1
          (fresh_state () :: (nat, unit) py_state))
     = Inl (OtherError ''RuntimeError'' ''operator not found'')
   \<and> (\<exists>h st'. try_activate torch_broken ''torch_dist'' (fresh_state () :: (nat, unit) py_state)
                 = (h, Some (OtherError ''RuntimeError'' ''operator not found''), st'))"
proof -
  let ?st = "fresh_state () :: (nat, unit) py_state"
  have p: "fst (get_default_strategy plain_builtins torch_broken LOAD_SHARDED ''torch_dist'' 1 ?st)
             = Inl (OtherError ''RuntimeError'' ''operator not found'')"
    by (simp add: example_defs torch_broken_def)
  show ?thesis
    using p get_default_strategy_error_cases [OF p] by auto
qed

text \<open>
  C6 as stated fails for an error that is no \<^verbatim>\<open>ImportError\<close>: the \<^verbatim>\<open>RuntimeError\<close> of
  the torch routine reaches the caller as it is, not wrapped and without identity or
  hint.
\<close>

theorem non_import_error_reaches_caller_unwrapped:
  "fst (get_default_strategy plain_builtins torch_broken SAVE_SHARDED ''torch_dist'' 1
          (fresh_state () :: (nat, unit) py_state))
     = Inl (OtherError ''RuntimeError'' ''operator not found'')"
  by (simp add: example_defs torch_broken_def)

subsection \<open>Default metadata loading\<close>

text \<open>
  C8, as the code has it.  The \<^verbatim>\<open>load_sharded_metadata\<close> of \<^verbatim>\<open>LoadCommonStrategy\<close>
  returns the empty mapping, without raising and without touching the storage, for a
  strategy whose \<^verbatim>\<open>can_handle_sharded_objects\<close> is false, whatever the directory.
\<close>

theorem load_common_sharded_metadata_empty:
  assumes "\<not> can_handle_sharded_objects self"
  shows "LoadCommonStrategy_load_sharded_metadata self checkpoint_dir w = (Inr Map.empty, w)"
  using assms by (simp add: LoadCommonStrategy_load_sharded_metadata_def)

theorem load_common_sharded_metadata_empty_witness:
  "\<not> can_handle_sharded_objects plain_common_strategy
   \<and> LoadCommonStrategy_load_sharded_metadata plain_common_strategy ''/ckpt/iter_10'' ()
       = (Inr (Map.empty :: string \<rightharpoonup> nat), ())"
proof -
  have h: "\<not> can_handle_sharded_objects plain_common_strategy"
    by (simp add: plain_common_strategy_def)
  show ?thesis
    using h load_common_sharded_metadata_empty [OF h, of "''/ckpt/iter_10''" "()"] by simp
qed

text \<open>
  C8 as stated fails for a sharded load strategy: with \<^verbatim>\<open>can_handle_sharded_objects\<close>
  false, its \<^verbatim>\<open>load_sharded_metadata\<close> returns what \<^verbatim>\<open>load_tensors_metadata\<close> returns,
  here a mapping with the key \<open>weight\<close>.
\<close>

theorem load_sharded_metadata_not_empty:
  "\<not> can_handle_sharded_objects one_tensor_strategy
   \<and> fst (LoadShardedStrategy_load_sharded_metadata one_tensor_strategy ''/ckpt/iter_10'' ())
       = Inr [''weight'' \<mapsto> 7]
   \<and> [''weight'' \<mapsto> 7] \<noteq> (Map.empty :: string \<rightharpoonup> nat)"
  by (simp add: LoadShardedStrategy_load_sharded_metadata_def one_tensor_strategy_def)

text \<open>
  C9.  The \<^verbatim>\<open>load_sharded_metadata\<close> of \<^verbatim>\<open>LoadShardedStrategy\<close> is the strategy's
  \<^verbatim>\<open>load_tensors_metadata\<close> on the same directory, result and state alike, when
  \<^verbatim>\<open>can_handle_sharded_objects\<close> is false; otherwise it raises
  \<^verbatim>\<open>NotImplementedError\<close> and leaves the state as it was.
\<close>

theorem load_sharded_metadata_delegates:
  "(\<not> can_handle_sharded_objects self \<longrightarrow>
      LoadShardedStrategy_load_sharded_metadata self checkpoint_dir w
        = load_tensors_metadata self checkpoint_dir w)
   \<and> (can_handle_sharded_objects self \<longrightarrow>
      LoadShardedStrategy_load_sharded_metadata self checkpoint_dir w
        = (Inl (NotImplementedError
                  (''Loading only sharded metadata not implemented for '' @ class_name self)), w))"
  by (simp add: LoadShardedStrategy_load_sharded_metadata_def)

text \<open>
  The theorem at a strategy that finds one tensor, and at the same strategy with the
  property overridden to true.
\<close>

theorem load_sharded_metadata_delegates_witness:
  "LoadShardedStrategy_load_sharded_metadata one_tensor_strategy ''/ckpt/iter_10'' ()
     = (Inr [''weight'' \<mapsto> 7], ())
   \<and> LoadShardedStrategy_load_sharded_metadata
        (one_tensor_strategy\<lparr>can_handle_sharded_objects := True\<rparr>) ''/ckpt/iter_10'' ()
     = (Inl (NotImplementedError
               ''Loading only sharded metadata not implemented for OneTensorLoadStrategy''), ())"
proof -
  have f: "\<not> can_handle_sharded_objects one_tensor_strategy"
    by (simp add: one_tensor_strategy_def)
  have t: "can_handle_sharded_objects (one_tensor_strategy\<lparr>can_handle_sharded_objects := True\<rparr>)"
    by simp
  have "LoadShardedStrategy_load_sharded_metadata one_tensor_strategy ''/ckpt/iter_10'' ()
          = load_tensors_metadata one_tensor_strategy ''/ckpt/iter_10'' ()"
    using f
      load_sharded_metadata_delegates
        [where self = one_tensor_strategy and checkpoint_dir = "''/ckpt/iter_10''" and w = "()",
           THEN conjunct1]
    by simp
  moreover have "LoadShardedStrategy_load_sharded_metadata
        (one_tensor_strategy\<lparr>can_handle_sharded_objects := True\<rparr>) ''/ckpt/iter_10'' ()
     = (Inl (NotImplementedError
               (''Loading only sharded metadata not implemented for ''
                  @ class_name (one_tensor_strategy\<lparr>can_handle_sharded_objects := True\<rparr>))), ())"
    using t
      load_sharded_metadata_delegates
        [where self = "one_tensor_strategy\<lparr>can_handle_sharded_objects := True\<rparr>"
           and checkpoint_dir = "''/ckpt/iter_10''" and w = "()", THEN conjunct2]
    by simp
  ultimately show ?thesis
    by (simp add: one_tensor_strategy_def)
qed

subsection \<open>Registration leaves other identities alone\<close>

lemma run_registrations_append:
  "run_registrations (rs @ rs') st = run_registrations rs' (run_registrations rs st)"
  by (induction rs arbitrary: st) auto

lemma try_activate_registration_routines:
  "\<exists>h x rs. \<forall>st.
     try_activate
       \<lparr>register_default_tensorstore_strategies = registration_routine rt xt,
        register_default_zarr_strategies = registration_routine rz xz,
        register_default_torch_strategies = registration_routine rp xp\<rparr> b st
     = (h, x, run_registrations rs st)"
proof (cases "b = ''zarr''")
  case True
  show ?thesis
  proof (cases xt)
    case None
    with True have "\<forall>st. try_activate
       \<lparr>register_default_tensorstore_strategies = registration_routine rt xt,
        register_default_zarr_strategies = registration_routine rz xz,
        register_default_torch_strategies = registration_routine rp xp\<rparr> b st
       = (zarr_hint, xz, run_registrations (rt @ rz) st)"
      by (simp add: try_activate_def registration_routine_def run_registrations_append)
    then show ?thesis by blast
  next
    case (Some e)
    with True have "\<forall>st. try_activate
       \<lparr>register_default_tensorstore_strategies = registration_routine rt xt,
        register_default_zarr_strategies = registration_routine rz xz,
        register_default_torch_strategies = registration_routine rp xp\<rparr> b st
       = (zarr_hint, Some e, run_registrations rt st)"
      by (simp add: try_activate_def registration_routine_def)
    then show ?thesis by blast
  qed
next
  case False
  show ?thesis
  proof (cases "b = ''torch_dist''")
    case True
    with False have "\<forall>st. try_activate
       \<lparr>register_default_tensorstore_strategies = registration_routine rt xt,
        register_default_zarr_strategies = registration_routine rz xz,
        register_default_torch_strategies = registration_routine rp xp\<rparr> b st
       = (torch_hint, xp, run_registrations rp st)"
      by (simp add: try_activate_def registration_routine_def)
    then show ?thesis by blast
  next
    case nt: False
    with False have "\<forall>st. try_activate
       \<lparr>register_default_tensorstore_strategies = registration_routine rt xt,
        register_default_zarr_strategies = registration_routine rz xz,
        register_default_torch_strategies = registration_routine rp xp\<rparr> b st
       = ([], None, run_registrations [] st)"
      by (simp add: try_activate_def)
    then show ?thesis by blast
  qed
qed

text \<open>
  C10.  Registering a strategy for one identity leaves the entry of every other
  identity as it was, present or absent.  Resolving the other identity gives the same
  result, value or exception, before and after the registration: for every backend
  when the backend routines are registration routines as the design describes them
  (a fixed list of registrations, then possibly an error), and for every routine
  whatsoever when the backend resolved is neither \<^verbatim>\<open>zarr\<close> nor \<^verbatim>\<open>torch_dist\<close>.
\<close>

theorem register_leaves_other_identities:
  assumes "(action1, backend1, version1) \<noteq> (action2, backend2, version2)"
  shows "registered (register_default_strategy action1 backend1 version1 s st)
             action2 backend2 version2
           = registered st action2 backend2 version2
       \<and> fst (get_default_strategy R
                \<lparr>register_default_tensorstore_strategies = registration_routine rt xt,
                 register_default_zarr_strategies = registration_routine rz xz,
                 register_default_torch_strategies = registration_routine rp xp\<rparr>
                action2 backend2 version2
                (register_default_strategy action1 backend1 version1 s st))
           = fst (get_default_strategy R
                \<lparr>register_default_tensorstore_strategies = registration_routine rt xt,
                 register_default_zarr_strategies = registration_routine rz xz,
                 register_default_torch_strategies = registration_routine rp xp\<rparr>
                action2 backend2 version2 st)
       \<and> (backend2 \<noteq> ''zarr'' \<longrightarrow> backend2 \<noteq> ''torch_dist'' \<longrightarrow>
            fst (get_default_strategy R B action2 backend2 version2
                   (register_default_strategy action1 backend1 version1 s st))
              = fst (get_default_strategy R B action2 backend2 version2 st))"
proof -
  let ?st' = "register_default_strategy action1 backend1 version1 s st"
  let ?B = "\<lparr>register_default_tensorstore_strategies = registration_routine rt xt,
             register_default_zarr_strategies = registration_routine rz xz,
             register_default_torch_strategies = registration_routine rp xp\<rparr>"
  have entry: "registered ?st' action2 backend2 version2 = registered st action2 backend2 version2"
    using assms by (auto simp: registered_register)
  obtain h x rs
    where after: "try_activate ?B backend2 ?st' = (h, x, run_registrations rs ?st')"
      and before: "try_activate ?B backend2 st = (h, x, run_registrations rs st)"
    using try_activate_registration_routines [of rt xt rz xz rp xp backend2] by blast
  have "registered (run_registrations rs ?st') action2 backend2 version2
          = registered (run_registrations rs st) action2 backend2 version2"
    using entry by (rule registered_run_registrations)
  then have described: "fst (get_default_strategy R ?B action2 backend2 version2 ?st')
               = fst (get_default_strategy R ?B action2 backend2 version2 st)"
    by (rule fst_get_default_strategy_cong [OF after before])
  have other: "fst (get_default_strategy R B action2 backend2 version2 ?st')
               = fst (get_default_strategy R B action2 backend2 version2 st)"
    if nz: "backend2 \<noteq> ''zarr''" and nt: "backend2 \<noteq> ''torch_dist''"
    using entry
    by (rule fst_get_default_strategy_cong
          [OF try_activate_other [OF nz nt] try_activate_other [OF nz nt]])
  show ?thesis
    using entry described other by blast
qed

text \<open>
  The theorem for a registration under \<open>(LOAD_SHARDED, zarr, 1)\<close> and a resolution of
  \<open>(SAVE_SHARDED, torch_dist, 2)\<close>, which the torch routine registers.
\<close>

theorem register_leaves_other_identities_witness:
  "(LOAD_SHARDED, ''zarr'', 1::int) \<noteq> (SAVE_SHARDED, ''torch_dist'', 2)
   \<and> fst (get_default_strategy plain_builtins
            \<lparr>register_default_tensorstore_strategies = registration_routine [] None,
             register_default_zarr_strategies = registration_routine [] None,
             register_default_torch_strategies =
               registration_routine [(SAVE_SHARDED, ''torch_dist'', 2, 0)] None\<rparr>
            SAVE_SHARDED ''torch_dist'' 2
            (register_default_strategy LOAD_SHARDED ''zarr'' 1 (5::nat) (fresh_state ())))
       = fst (get_default_strategy plain_builtins
            \<lparr>register_default_tensorstore_strategies = registration_routine [] None,
             register_default_zarr_strategies = registration_routine [] None,
             register_default_torch_strategies =
               registration_routine [(SAVE_SHARDED, ''torch_dist'', 2, 0)] None\<rparr>
            SAVE_SHARDED ''torch_dist'' 2 (fresh_state ()))"
proof -
  have h: "(LOAD_SHARDED, ''zarr'', 1::int) \<noteq> (SAVE_SHARDED, ''torch_dist'', 2)"
    by simp
  show ?thesis
    using h
      register_leaves_other_identities
        [OF h, where R = plain_builtins and s = "5::nat" and st = "fresh_state ()"
           and rt = "[]" and xt = None and rz = "[]" and xz = None
           and rp = "[(SAVE_SHARDED, ''torch_dist'', 2, 0)]" and xp = None]
    by blast
qed

subsection \<open>The synchronous save of an async strategy\<close>

text \<open>
  C2.  For every queue, every async strategy, every sharded state dict and every
  directory, \<^verbatim>\<open>save\<close> leaves the state that the three calls of the caller's path leave
  (\<^verbatim>\<open>async_save\<close>, \<^verbatim>\<open>schedule_async_request\<close>, \<^verbatim>\<open>maybe_finalize_async_calls(blocking=True)\<close>),
  and it raises exactly when that path raises, with the same exception.  The two differ
  only in the value returned: \<^verbatim>\<open>save\<close> returns \<^verbatim>\<open>None\<close> where the last call returns a
  flag.
\<close>

theorem save_is_async_save_schedule_finalize:
  "snd (AsyncSaveShardedStrategy_save async_calls self sharded_state_dict checkpoint_dir st)
     = snd (async_save_schedule_finalize async_calls self sharded_state_dict checkpoint_dir st)
   \<and> fst (AsyncSaveShardedStrategy_save async_calls self sharded_state_dict checkpoint_dir st)
     = map_sum (\<lambda>e. e) (\<lambda>r. ())
         (fst (async_save_schedule_finalize async_calls self sharded_state_dict checkpoint_dir st))"
  by (simp add: AsyncSaveShardedStrategy_save_def async_save_schedule_finalize_def then_call_def
        split: prod.splits sum.splits)

end
